theory Spec2Isabelle
  imports Main "HOL-Library.Sublist"
begin

section \<open>Strings and decorative glyphs\<close>

text \<open>
  Python strings are modelled as \<^typ>\<open>string\<close>. The source decorates its logs with
  box-drawing characters and emoji; each is held here as a named constant (its UTF-8
  bytes), and no property below depends on which bytes they are.
\<close>

definition NL :: string where
  "NL = [CHR 0x0A]"

definition glyph_block :: string where
  "glyph_block = [CHR 0xE2, CHR 0x96, CHR 0x88]"

definition glyph_cross :: string where
  "glyph_cross = [CHR 0xE2, CHR 0x9D, CHR 0x8C]"

definition glyph_check :: string where
  "glyph_check = [CHR 0xE2, CHR 0x9C, CHR 0x85]"

definition box_h :: string where
  "box_h = [CHR 0xE2, CHR 0x94, CHR 0x81]"

definition box_v :: string where
  "box_v = [CHR 0xE2, CHR 0x94, CHR 0x83]"

definition box_top_left :: string where
  "box_top_left = [CHR 0xE2, CHR 0x94, CHR 0x8F]"

definition box_top_right :: string where
  "box_top_right = [CHR 0xE2, CHR 0x94, CHR 0x93]"

definition box_mid_left :: string where
  "box_mid_left = [CHR 0xE2, CHR 0x94, CHR 0xA3]"

definition box_mid_right :: string where
  "box_mid_right = [CHR 0xE2, CHR 0x94, CHR 0xAB]"

definition box_bottom_left :: string where
  "box_bottom_left = [CHR 0xE2, CHR 0x94, CHR 0x97]"

definition box_bottom_right :: string where
  "box_bottom_right = [CHR 0xE2, CHR 0x94, CHR 0x9B]"

definition out_box_top :: string where
  "out_box_top =
     [CHR 0xE2, CHR 0x94, CHR 0x8C] @ concat (replicate 28 [CHR 0xE2, CHR 0x94, CHR 0x80])
     @ '' OUTPUT '' @ concat (replicate 28 [CHR 0xE2, CHR 0x94, CHR 0x80])
     @ [CHR 0xE2, CHR 0x94, CHR 0x90]"

definition out_box_bottom :: string where
  "out_box_bottom =
     [CHR 0xE2, CHR 0x94, CHR 0x94] @ concat (replicate 63 [CHR 0xE2, CHR 0x94, CHR 0x80])
     @ [CHR 0xE2, CHR 0x94, CHR 0x98]"

text \<open>\<open>sep.join(parts)\<close> and \<open>s.split(sep)\<close> for a one-character separator.\<close>

fun str_join :: "string \<Rightarrow> string list \<Rightarrow> string" where
  "str_join sep [] = []"
| "str_join sep [x] = x"
| "str_join sep (x # y # ys) = x @ sep @ str_join sep (y # ys)"

fun str_split :: "char \<Rightarrow> string \<Rightarrow> string list" where
  "str_split c [] = [[]]"
| "str_split c (x # xs) =
     (if x = c then [] # str_split c xs
      else (case str_split c xs of
              [] \<Rightarrow> [[x]]
            | y # ys \<Rightarrow> (x # y) # ys))"

text \<open>\<open>str(n)\<close> for an integer: decimal digits, with a minus sign when negative.\<close>

definition digit_char :: "nat \<Rightarrow> char" where
  "digit_char d = char_of (48 + d)"

fun str_nat :: "nat \<Rightarrow> string" where
  "str_nat n = (if n < 10 then [digit_char n] else str_nat (n div 10) @ [digit_char (n mod 10)])"

definition str_int :: "int \<Rightarrow> string" where
  "str_int i = (if i < 0 then ''-'' @ str_nat (nat (- i)) else str_nat (nat i))"

text \<open>
  \<open>str.strip()\<close> and \<open>str.rstrip()\<close> with no argument remove white space; on the
  ASCII range Python's \<open>str.isspace\<close> holds for tab, line feed, vertical tab, form feed,
  carriage return, the separators 0x1C to 0x1F, and the space.
\<close>

definition py_isspace :: "char \<Rightarrow> bool" where
  "py_isspace c = (c \<in> set [CHR 0x09, CHR 0x0A, CHR 0x0B, CHR 0x0C, CHR 0x0D,
                              CHR 0x1C, CHR 0x1D, CHR 0x1E, CHR 0x1F, CHR 0x20])"

definition rstrip :: "string \<Rightarrow> string" where
  "rstrip s = rev (dropWhile py_isspace (rev s))"

definition strip :: "string \<Rightarrow> string" where
  "strip s = rstrip (dropWhile py_isspace s)"

section \<open>Paths (the POSIX \<open>os.path\<close>)\<close>

definition isabs :: "string \<Rightarrow> bool" where
  "isabs p = prefix ''/'' p"

text \<open>\<open>os.path.join(a, b)\<close>: an absolute second part replaces the first.\<close>

definition path_join :: "string \<Rightarrow> string \<Rightarrow> string" where
  "path_join a b =
     (if prefix ''/'' b then b
      else if a = [] \<or> suffix ''/'' a then a @ b
      else a @ ''/'' @ b)"

text \<open>
  \<open>os.path.normpath\<close>: the body of its loop over the components, then the function.
  One or two leading slashes are kept as they are, three or more become one.
\<close>

definition norm_comp :: "nat \<Rightarrow> string list \<Rightarrow> string \<Rightarrow> string list" where
  "norm_comp initial_slashes new_comps c =
     (if c = [] \<or> c = ''.'' then new_comps
      else if c \<noteq> ''..'' \<or> (initial_slashes = 0 \<and> new_comps = [])
              \<or> (new_comps \<noteq> [] \<and> last new_comps = ''..'')
           then new_comps @ [c]
      else if new_comps \<noteq> [] then butlast new_comps
      else new_comps)"

definition initial_slashes_of :: "string \<Rightarrow> nat" where
  "initial_slashes_of path =
     (if prefix ''/'' path
      then (if prefix ''//'' path \<and> \<not> prefix ''///'' path then 2 else 1)
      else 0)"

definition normpath :: "string \<Rightarrow> string" where
  "normpath path =
     (if path = [] then ''.''
      else
        let n = initial_slashes_of path;
            comps = foldl (norm_comp n) [] (str_split CHR ''/'' path);
            joined = str_join ''/'' comps;
            res = (if n \<noteq> 0 then replicate n CHR ''/'' @ joined else joined)
        in if res = [] then ''.'' else res)"

text \<open>\<open>os.path.abspath\<close>, with the process's working directory as a parameter.\<close>

definition abspath :: "string \<Rightarrow> string \<Rightarrow> string" where
  "abspath cwd path = normpath (if isabs path then path else path_join cwd path)"

section \<open>Security guardrails and the environment allowlist\<close>

definition ALLOWED_ROOTS :: "string list" where
  "ALLOWED_ROOTS = [''/home/elyvium/projects/ecosystem/'']"

text \<open>The text Python's f-string gives for \<open>{ALLOWED_ROOTS}\<close>: the \<open>repr\<close> of the list.\<close>

definition ALLOWED_ROOTS_repr :: string where
  "ALLOWED_ROOTS_repr = ''['' @ [CHR 0x27] @ ''/home/elyvium/projects/ecosystem/'' @ [CHR 0x27] @ '']''"

record EnvConfig =
  key :: string
  name :: string
  default_work_front_dir :: string
  default_work_back_dir :: string
  default_branch :: string
  front_deploy_script :: "string option"
  backend_compose_command :: string

definition ENV_TEST :: EnvConfig where
  "ENV_TEST = \<lparr>
     key = ''TEST'',
     name = ''TEST'',
     default_work_front_dir = ''/home/elyvium/projects/ecosystem/elyvium-ecosystem-frontend'',
     default_work_back_dir = ''/home/elyvium/projects/ecosystem/elyvium-ecosystem'',
     default_branch = ''sprint/23'',
     front_deploy_script = Some ''./deploy.sh'',
     backend_compose_command = ''docker compose -p elyvium-test --env-file .env.test up --build -d'' \<rparr>"

definition ENV_DEV :: EnvConfig where
  "ENV_DEV = \<lparr>
     key = ''DEV'',
     name = ''DEV'',
     default_work_front_dir = ''/home/elyvium/projects/ecosystem/elyvium-ecosystem-frontend'',
     default_work_back_dir = ''/home/elyvium/projects/ecosystem/elyvium-ecosystem'',
     default_branch = ''sprint/23'',
     front_deploy_script = None,
     backend_compose_command = ''docker compose --env-file .env.dev up --build -d'' \<rparr>"

definition ENVS :: "EnvConfig list" where
  "ENVS = [ENV_TEST, ENV_DEV]"

text \<open>The dict comprehension \<open>{e.key: e for e in ENVS}\<close>: a later entry replaces an
  earlier one with the same key.\<close>

definition dict_by_key :: "EnvConfig list \<Rightarrow> (string \<rightharpoonup> EnvConfig)" where
  "dict_by_key es = foldl (\<lambda>m e. m(key e \<mapsto> e)) Map.empty es"

definition ENVS_BY_KEY :: "string \<rightharpoonup> EnvConfig" where
  "ENVS_BY_KEY = dict_by_key ENVS"

text \<open>Python's truth value of an optional string: \<open>None\<close> and \<open>""\<close> are false.\<close>

definition truthy :: "string option \<Rightarrow> bool" where
  "truthy s = (case s of None \<Rightarrow> False | Some x \<Rightarrow> x \<noteq> [])"

section \<open>API models\<close>

record DeployRequest =
  env_key :: string
  work_front_dir :: string
  work_back_dir :: string
  branch :: string

text \<open>The JSON objects the endpoints return: Python dicts, as association lists in
  insertion order.\<close>

datatype json = JStr string | JBool bool

section \<open>The host: clock, file system, processes\<close>

text \<open>
  What \<open>subprocess.run(cmd, cwd=cwd, text=True, capture_output=True)\<close> gives: a
  completed process with its return code and the two captured streams, or an exception
  of the operating system when no process could be started.
\<close>

datatype proc_result =
    Completed (returncode: int) (stdout: "string option") (stderr: "string option")
  | SpawnError

text \<open>
  Everything the program does to the outside is recorded in a trace, in order: what it
  prints on the terminal, which paths it tests (and the answer), and which commands it
  runs (with the working directory and what came back).
\<close>

datatype event =
    Printed string
  | Checked_isdir string bool
  | Checked_isfile string bool
  | Ran "string list" string proc_result

text \<open>
  The host is a parameter: the working directory of the server process, the text of the
  \<open>n\<close>-th reading of the clock (\<open>datetime.now().strftime(...)\<close>), the file system
  tests and the process runner over a state of the world that only commands change, and
  \<open>shlex.split\<close> (\<open>None\<close> when it raises \<open>ValueError\<close>).
\<close>

record 'w host =
  getcwd :: string
  strftime_now :: "nat \<Rightarrow> string"
  os_isdir :: "'w \<Rightarrow> string \<Rightarrow> bool"
  os_isfile :: "'w \<Rightarrow> string \<Rightarrow> bool"
  subprocess_run :: "'w \<Rightarrow> string list \<Rightarrow> string \<Rightarrow> proc_result \<times> 'w"
  shlex_split :: "string \<Rightarrow> string list option"

record 'w state =
  world :: 'w
  ticks :: nat
  trace :: "event list"

text \<open>The exceptions that can leave a request handler.\<close>

datatype exn =
    HTTPException (status_code: int) (detail: string)
  | OSError
  | ValueError

definition print :: "string \<Rightarrow> 'w state \<Rightarrow> 'w state" where
  "print x s = s\<lparr>trace := trace s @ [Printed x]\<rparr>"

definition isdir :: "'w host \<Rightarrow> string \<Rightarrow> 'w state \<Rightarrow> bool \<times> 'w state" where
  "isdir H path s =
     (let b = os_isdir H (world s) path
      in (b, s\<lparr>trace := trace s @ [Checked_isdir path b]\<rparr>))"

definition isfile :: "'w host \<Rightarrow> string \<Rightarrow> 'w state \<Rightarrow> bool \<times> 'w state" where
  "isfile H path s =
     (let b = os_isfile H (world s) path
      in (b, s\<lparr>trace := trace s @ [Checked_isfile path b]\<rparr>))"

section \<open>Visible logging helpers\<close>

definition ts :: "'w host \<Rightarrow> 'w state \<Rightarrow> string \<times> 'w state" where
  "ts H s = (strftime_now H (ticks s), s\<lparr>ticks := Suc (ticks s)\<rparr>)"

definition banner_line :: string where
  "banner_line = concat (replicate 100 glyph_block)"

text \<open>The f-string of \<open>_banner\<close>, for a time stamp already read.\<close>

definition banner_text :: "string \<Rightarrow> string \<Rightarrow> string" where
  "banner_text t title =
     NL @ banner_line @ NL @ glyph_block @ '' '' @ t @ '' | '' @ title @ NL @ banner_line @ NL"

definition banner :: "'w host \<Rightarrow> string \<Rightarrow> 'w state \<Rightarrow> string \<times> 'w state" where
  "banner H title s = (case ts H s of (t, s') \<Rightarrow> (banner_text t title, s'))"

definition cmd_block_rule :: string where
  "cmd_block_rule = concat (replicate 92 box_h)"

definition cmd_block :: "string list \<Rightarrow> string \<Rightarrow> string" where
  "cmd_block cmd cwd =
     NL
     @ box_top_left @ cmd_block_rule @ box_top_right @ NL
     @ box_v @ '' COMMAND'' @ replicate 84 CHR '' '' @ box_v @ NL
     @ box_mid_left @ cmd_block_rule @ box_mid_right @ NL
     @ box_v @ '' CWD : '' @ cwd @ NL
     @ box_v @ '' CMD : '' @ str_join '' '' cmd @ NL
     @ box_bottom_left @ cmd_block_rule @ box_bottom_right @ NL"

section \<open>Validation helpers\<close>

definition is_under_allowed_roots :: "'w host \<Rightarrow> string \<Rightarrow> bool" where
  "is_under_allowed_roots H path =
     (let path' = abspath (getcwd H) path
      in list_ex (\<lambda>root. prefix root path') ALLOWED_ROOTS)"

definition assert_git_repo :: "'w host \<Rightarrow> string \<Rightarrow> 'w state \<Rightarrow> (exn + unit) \<times> 'w state" where
  "assert_git_repo H path s =
     (case isdir H path s of (d, s1) \<Rightarrow>
        if \<not> d then (Inl (HTTPException 400 (''Directory not found: '' @ path)), s1)
        else (case isdir H (path_join path ''.git'') s1 of (g, s2) \<Rightarrow>
          if \<not> g then (Inl (HTTPException 400 (''Not a git repo (.git not found): '' @ path)), s2)
          else (Inr (), s2)))"

definition assert_file_exists :: "'w host \<Rightarrow> string \<Rightarrow> 'w state \<Rightarrow> (exn + unit) \<times> 'w state" where
  "assert_file_exists H path s =
     (case isfile H path s of (f, s1) \<Rightarrow>
        if \<not> f then (Inl (HTTPException 400 (''File not found: '' @ path)), s1)
        else (Inr (), s1))"

section \<open>Command runner\<close>

text \<open>\<open>x or ""\<close> for an optional string.\<close>

definition or_empty :: "string option \<Rightarrow> string" where
  "or_empty x = (case x of None \<Rightarrow> [] | Some v \<Rightarrow> v)"

definition captured :: "proc_result \<Rightarrow> string" where
  "captured p = or_empty (stdout p) @ or_empty (stderr p)"

definition run_cmd_capture ::
  "'w host \<Rightarrow> string list \<Rightarrow> string \<Rightarrow> 'w state \<Rightarrow> (exn + string) \<times> 'w state" where
  "run_cmd_capture H cmd cwd s =
     (let s1 = print (cmd_block cmd cwd) s in
      case subprocess_run H (world s1) cmd cwd of (p, w') \<Rightarrow>
        let s2 = s1\<lparr>world := w', trace := trace s1 @ [Ran cmd cwd p]\<rparr> in
        (case p of
           SpawnError \<Rightarrow> (Inl OSError, s2)
         | Completed rc so se \<Rightarrow>
             let out = or_empty so @ or_empty se;
                 s3 = (if strip out \<noteq> []
                       then print out_box_bottom (print (rstrip out) (print out_box_top s2))
                       else s2)
             in if rc \<noteq> 0
                then (case banner H (''COMMAND FAILED '' @ glyph_cross) s3 of (b, s4) \<Rightarrow>
                        (Inl (HTTPException 500
                               (b @ cmd_block cmd cwd
                                @ ''Exit Code: '' @ str_int rc @ NL @ NL @ out)), s4))
                else (Inr out, s3)))"

section \<open>Deploy steps\<close>

definition deploy_frontend ::
  "'w host \<Rightarrow> EnvConfig \<Rightarrow> string \<Rightarrow> string \<Rightarrow> 'w state \<Rightarrow> (exn + string) \<times> 'w state" where
  "deploy_frontend H e wdir br s =
     (case banner H (''FRONTEND DEPLOY | '' @ name e) s of (log0, s0) \<Rightarrow>
        if \<not> truthy (front_deploy_script e)
        then (Inr (log0 @ ''[Frontend] Skipped (not configured for this environment)'' @ NL), s0)
        else
          (case assert_git_repo H wdir s0 of
             (Inl x, s1) \<Rightarrow> (Inl x, s1)
           | (Inr _, s1) \<Rightarrow>
               let script_path = path_join wdir (or_empty (front_deploy_script e)) in
               (case assert_file_exists H script_path s1 of
                  (Inl x, s2) \<Rightarrow> (Inl x, s2)
                | (Inr _, s2) \<Rightarrow>
                    let log1 = log0
                          @ ''Frontend Directory : '' @ wdir @ NL
                          @ ''Deploy Script      : '' @ script_path @ NL
                          @ ''Branch             : '' @ br @ NL;
                        cmd = [''bash'', script_path, br];
                        log2 = log1 @ cmd_block cmd wdir
                    in (case run_cmd_capture H cmd wdir s2 of
                          (Inl x, s3) \<Rightarrow> (Inl x, s3)
                        | (Inr out, s3) \<Rightarrow>
                            (Inr (log2 @ out @ NL @ ''[Frontend] Done '' @ glyph_check @ NL), s3)))))"

definition deploy_backend ::
  "'w host \<Rightarrow> EnvConfig \<Rightarrow> string \<Rightarrow> string \<Rightarrow> 'w state \<Rightarrow> (exn + string) \<times> 'w state" where
  "deploy_backend H e wdir br s =
     (case banner H (''BACKEND DEPLOY | '' @ name e) s of (log0, s0) \<Rightarrow>
        (case assert_git_repo H wdir s0 of
           (Inl x, s1) \<Rightarrow> (Inl x, s1)
         | (Inr _, s1) \<Rightarrow>
             let log1 = log0
                   @ ''Backend Directory  : '' @ wdir @ NL
                   @ ''Branch             : '' @ br @ NL
                   @ ''Docker Compose     : '' @ backend_compose_command e @ NL;
                 cmd1 = [''git'', ''fetch'', ''origin''];
                 log2 = log1 @ cmd_block cmd1 wdir
             in (case run_cmd_capture H cmd1 wdir s1 of
                   (Inl x, s2) \<Rightarrow> (Inl x, s2)
                 | (Inr out1, s2) \<Rightarrow>
                     let cmd2 = [''git'', ''pull'', ''origin'', br];
                         log3 = log2 @ out1 @ cmd_block cmd2 wdir
                     in (case run_cmd_capture H cmd2 wdir s2 of
                           (Inl x, s3) \<Rightarrow> (Inl x, s3)
                         | (Inr out2, s3) \<Rightarrow>
                             (case shlex_split H (backend_compose_command e) of
                                None \<Rightarrow> (Inl ValueError, s3)
                              | Some compose_args \<Rightarrow>
                                  let log4 = log3 @ out2 @ cmd_block compose_args wdir
                                  in (case run_cmd_capture H compose_args wdir s3 of
                                        (Inl x, s4) \<Rightarrow> (Inl x, s4)
                                      | (Inr out3, s4) \<Rightarrow>
                                          (Inr (log4 @ out3 @ NL @ ''[Backend] Done ''
                                                @ glyph_check @ NL), s4)))))))"

section \<open>API endpoints\<close>

definition env_row :: "EnvConfig \<Rightarrow> (string \<times> json) list" where
  "env_row e =
     [(''env_key'', JStr (key e)),
      (''name'', JStr (name e)),
      (''default_work_front_dir'', JStr (default_work_front_dir e)),
      (''default_work_back_dir'', JStr (default_work_back_dir e)),
      (''default_branch'', JStr (default_branch e)),
      (''has_frontend'', JBool (truthy (front_deploy_script e)))]"

definition list_envs :: "(string \<times> json) list list" where
  "list_envs = map env_row ENVS"

definition deploy ::
  "'w host \<Rightarrow> DeployRequest \<Rightarrow> 'w state \<Rightarrow> (exn + (string \<times> json) list) \<times> 'w state" where
  "deploy H req s =
     (case ENVS_BY_KEY (env_key req) of
        None \<Rightarrow> (Inl (HTTPException 400 ''Invalid env_key (not in allowlist).''), s)
      | Some e \<Rightarrow>
          (case find (\<lambda>p. \<not> is_under_allowed_roots H p) [work_front_dir req, work_back_dir req] of
             Some p \<Rightarrow>
               (Inl (HTTPException 400
                      (''Path not allowed: '' @ p @ NL @ ''Allowed roots: '' @ ALLOWED_ROOTS_repr)), s)
           | None \<Rightarrow>
               (case banner H (''DEPLOY STARTED | '' @ name e) s of (b0, s0) \<Rightarrow>
                let s1 = print (''branch        : '' @ branch req)
                          (print (''work_back_dir : '' @ work_back_dir req)
                            (print (''work_front_dir: '' @ work_front_dir req)
                              (print b0 s0)))
                in (case banner H (''DEPLOY STARTED | '' @ name e) s1 of (b1, s2) \<Rightarrow>
                    let log0 = b1
                          @ ''work_front_dir: '' @ work_front_dir req @ NL
                          @ ''work_back_dir : '' @ work_back_dir req @ NL
                          @ ''branch        : '' @ branch req @ NL
                    in (case deploy_frontend H e (work_front_dir req) (branch req) s2 of
                          (Inl x, s3) \<Rightarrow> (Inl x, s3)
                        | (Inr flog, s3) \<Rightarrow>
                            (case deploy_backend H e (work_back_dir req) (branch req) s3 of
                               (Inl x, s4) \<Rightarrow> (Inl x, s4)
                             | (Inr blog, s4) \<Rightarrow>
                                 (case banner H (''DEPLOY FINISHED '' @ glyph_check @ '' | '' @ name e) s4
                                  of (b2, s5) \<Rightarrow>
                                    (case banner H (''DEPLOY FINISHED '' @ glyph_check @ '' | '' @ name e) s5
                                     of (b3, s6) \<Rightarrow>
                                       (Inr [(''ok'', JBool True),
                                             (''env'', JStr (name e)),
                                             (''output'', JStr (log0 @ flog @ blog @ b2))],
                                        print b3 s6)))))))))"

section \<open>Vocabulary of the properties\<close>


text \<open>The commands of a trace, in the order they ran.\<close>

fun ran :: "event list \<Rightarrow> (string list \<times> string \<times> proc_result) list" where
  "ran [] = []"
| "ran (Ran cmd cwd p # es) = (cmd, cwd, p) # ran es"
| "ran (_ # es) = ran es"

definition exited_zero :: "proc_result \<Rightarrow> bool" where
  "exited_zero p = (case p of Completed rc _ _ \<Rightarrow> rc = 0 | SpawnError \<Rightarrow> False)"

text \<open>The actions of a trace: its file system tests and commands, without the printing.\<close>

fun actions :: "event list \<Rightarrow> event list" where
  "actions [] = []"
| "actions (Printed _ # es) = actions es"
| "actions (e # es) = e # actions es"

text \<open>An event went well: a test that answered yes, a command that exited with zero.\<close>

fun went_well :: "event \<Rightarrow> bool" where
  "went_well (Printed _) = True"
| "went_well (Checked_isdir _ b) = b"
| "went_well (Checked_isfile _ b) = b"
| "went_well (Ran _ _ p) = exited_zero p"

text \<open>A trace stops at the first failure: every action but the last went well.\<close>

definition fail_fast :: "event list \<Rightarrow> bool" where
  "fail_fast t = list_all went_well (butlast (actions t))"

text \<open>What the terminal shows of a command's output: nothing when it is blank.\<close>

definition output_box :: "string \<Rightarrow> event list" where
  "output_box out =
     (if strip out \<noteq> [] then [Printed out_box_top, Printed (rstrip out), Printed out_box_bottom]
      else [])"

text \<open>The detail of the error for a command that failed, given the banner's time stamp.\<close>

definition failure_detail :: "string \<Rightarrow> string list \<Rightarrow> string \<Rightarrow> int \<Rightarrow> string \<Rightarrow> string" where
  "failure_detail t cmd cwd rc out =
     banner_text t (''COMMAND FAILED '' @ glyph_cross) @ cmd_block cmd cwd
     @ ''Exit Code: '' @ str_int rc @ NL @ NL @ out"

text \<open>The state in which the frontend stage of a request starts: the start banner and
  the three request lines are on the terminal, the clock has been read twice.\<close>

definition stage_entry :: "'w host \<Rightarrow> EnvConfig \<Rightarrow> DeployRequest \<Rightarrow> 'w state \<Rightarrow> 'w state" where
  "stage_entry H e req s =
     s\<lparr>trace := trace s @
         [Printed (banner_text (strftime_now H (ticks s)) (''DEPLOY STARTED | '' @ name e)),
          Printed (''work_front_dir: '' @ work_front_dir req),
          Printed (''work_back_dir : '' @ work_back_dir req),
          Printed (''branch        : '' @ branch req)],
       ticks := Suc (Suc (ticks s))\<rparr>"

text \<open>The head of the transcript of a request: the start banner and the request lines.\<close>

definition transcript_head :: "'w host \<Rightarrow> EnvConfig \<Rightarrow> DeployRequest \<Rightarrow> 'w state \<Rightarrow> string" where
  "transcript_head H e req s =
     banner_text (strftime_now H (Suc (ticks s))) (''DEPLOY STARTED | '' @ name e)
     @ ''work_front_dir: '' @ work_front_dir req @ NL
     @ ''work_back_dir : '' @ work_back_dir req @ NL
     @ ''branch        : '' @ branch req @ NL"

section \<open>A scripted host for concrete runs\<close>

text \<open>
  A host whose world is the list of results the next commands will give: each command
  takes the first one (and cannot be started when none is left). Its directories and
  files are fixed lists, its clock counts seconds, and its tokenizer knows the two
  configured compose commands.
\<close>

definition scripted_run ::
  "proc_result list \<Rightarrow> string list \<Rightarrow> string \<Rightarrow> proc_result \<times> proc_result list" where
  "scripted_run w cmd cwd = (case w of [] \<Rightarrow> (SpawnError, []) | p # ps \<Rightarrow> (p, ps))"

definition scripted_split :: "string \<Rightarrow> string list option" where
  "scripted_split c =
     (if c = ''docker compose --env-file .env.dev up --build -d''
      then Some [''docker'', ''compose'', ''--env-file'', ''.env.dev'', ''up'', ''--build'', ''-d'']
      else if c = ''docker compose -p elyvium-test --env-file .env.test up --build -d''
      then Some [''docker'', ''compose'', ''-p'', ''elyvium-test'', ''--env-file'', ''.env.test'',
                 ''up'', ''--build'', ''-d'']
      else None)"

definition scripted_host :: "string list \<Rightarrow> string list \<Rightarrow> proc_result list host" where
  "scripted_host dirs files = \<lparr>
     getcwd = ''/srv/deploy-tool'',
     strftime_now = (\<lambda>n. ''2025-01-01 00:00:'' @ str_nat (n div 10) @ str_nat (n mod 10)),
     os_isdir = (\<lambda>w p. p \<in> set dirs),
     os_isfile = (\<lambda>w p. p \<in> set files),
     subprocess_run = scripted_run,
     shlex_split = scripted_split \<rparr>"

definition front_dir :: string where
  "front_dir = ''/home/elyvium/projects/ecosystem/elyvium-ecosystem-frontend''"

definition back_dir :: string where
  "back_dir = ''/home/elyvium/projects/ecosystem/elyvium-ecosystem''"

text \<open>A host with both working trees checked out and the frontend script in place.\<close>

definition demo_host :: "proc_result list host" where
  "demo_host = scripted_host
     [front_dir, front_dir @ ''/.git'', back_dir, back_dir @ ''/.git'']
     [front_dir @ ''/./deploy.sh'']"

definition start :: "proc_result list \<Rightarrow> proc_result list state" where
  "start script = \<lparr>world = script, ticks = 0, trace = []\<rparr>"

section \<open>Requests and scripts for concrete runs\<close>

definition req_dev :: DeployRequest where
  "req_dev = \<lparr>env_key = ''DEV'', work_front_dir = front_dir, work_back_dir = back_dir, branch = ''sprint/23''\<rparr>"

definition req_test :: DeployRequest where
  "req_test = \<lparr>env_key = ''TEST'', work_front_dir = front_dir, work_back_dir = back_dir, branch = ''sprint/23''\<rparr>"

definition req_outside :: DeployRequest where
  "req_outside = \<lparr>env_key = ''DEV'', work_front_dir = ''/etc'', work_back_dir = back_dir, branch = ''sprint/23''\<rparr>"

definition req_unknown :: DeployRequest where
  "req_unknown = \<lparr>env_key = ''PROD'', work_front_dir = ''/etc'', work_back_dir = back_dir, branch = ''sprint/23''\<rparr>"

definition exit_ok :: "string \<Rightarrow> proc_result" where
  "exit_ok out = Completed 0 (Some out) (Some [])"

definition dev_ok_script :: "proc_result list" where
  "dev_ok_script = [exit_ok [], exit_ok ''Already up to date.'', exit_ok ''Started'']"

definition test_ok_script :: "proc_result list" where
  "test_ok_script = [exit_ok ''built'', exit_ok [], exit_ok ''Already up to date.'', exit_ok ''Started'']"



text \<open>A host with no directories at all, and one where the frontend tree lacks its script
  and the backend tree is not a git repository.\<close>

definition bare_host :: "proc_result list host" where
  "bare_host = scripted_host [] []"

definition no_script_host :: "proc_result list host" where
  "no_script_host = scripted_host [front_dir, front_dir @ ''/.git'', back_dir] []"

section \<open>The registry\<close>

lemma dict_by_key_snoc: "dict_by_key (es @ [x]) = (dict_by_key es)(key x \<mapsto> x)"
  by (simp add: dict_by_key_def)

lemma dict_by_key_distinct:
  "distinct (map key es) \<Longrightarrow> e \<in> set es \<Longrightarrow> dict_by_key es (key e) = Some e"
proof (induction es rule: rev_induct)
  case Nil
  then show ?case by simp
next
  case (snoc x xs)
  show ?case
  proof (cases "e = x")
    case True
    then show ?thesis by (simp add: dict_by_key_snoc)
  next
    case False
    with snoc.prems have mem: "e \<in> set xs" and "key x \<notin> key ` set xs" by auto
    then have "key e \<noteq> key x" by (metis imageI)
    with snoc.IH snoc.prems mem show ?thesis by (simp add: dict_by_key_snoc)
  qed
qed

lemma ENVS_distinct: "distinct (map key ENVS)"
  by (simp add: ENVS_def ENV_TEST_def ENV_DEV_def)

text \<open>
  C9. Every entry of the environment listing carries a key whose lookup in the registry
  succeeds, and the configuration found has the listed display name and the listed
  \<open>has_frontend\<close> flag; the listing has the keys of the table in the table's order.
\<close>

theorem list_envs_lookup_roundtrip:
  "(\<forall>row \<in> set list_envs. \<exists>k e.
       map_of row ''env_key'' = Some (JStr k) \<and> ENVS_BY_KEY k = Some e
     \<and> map_of row ''name'' = Some (JStr (name e))
     \<and> map_of row ''has_frontend'' = Some (JBool (truthy (front_deploy_script e))))
   \<and> map (\<lambda>row. map_of row ''env_key'') list_envs = map (\<lambda>e. Some (JStr (key e))) ENVS"
proof (intro conjI ballI)
  fix row assume "row \<in> set list_envs"
  then obtain e where e: "e \<in> set ENVS" and row: "row = env_row e"
    by (auto simp: list_envs_def)
  have "ENVS_BY_KEY (key e) = Some e"
    unfolding ENVS_BY_KEY_def using ENVS_distinct e by (rule dict_by_key_distinct)
  then show "\<exists>k e. map_of row ''env_key'' = Some (JStr k) \<and> ENVS_BY_KEY k = Some e
     \<and> map_of row ''name'' = Some (JStr (name e))
     \<and> map_of row ''has_frontend'' = Some (JBool (truthy (front_deploy_script e)))"
    unfolding row by (intro exI [of _ "key e"] exI [of _ e]) (simp add: env_row_def)
next
  show "map (\<lambda>row. map_of row ''env_key'') list_envs = map (\<lambda>e. Some (JStr (key e))) ENVS"
    by (simp add: list_envs_def env_row_def)
qed

theorem list_envs_lookup_roundtrip_witness:
  "env_row ENV_DEV \<in> set list_envs \<and>
   (\<exists>k e. map_of (env_row ENV_DEV) ''env_key'' = Some (JStr k) \<and> ENVS_BY_KEY k = Some e
      \<and> name e = ''DEV'' \<and> \<not> truthy (front_deploy_script e))"
proof -
  have mem: "env_row ENV_DEV \<in> set list_envs"
    by (simp add: list_envs_def ENVS_def)
  from list_envs_lookup_roundtrip [THEN conjunct1, THEN bspec, OF mem]
  obtain k e where "map_of (env_row ENV_DEV) ''env_key'' = Some (JStr k)"
    "ENVS_BY_KEY k = Some e"
    "map_of (env_row ENV_DEV) ''name'' = Some (JStr (name e))"
    "map_of (env_row ENV_DEV) ''has_frontend'' = Some (JBool (truthy (front_deploy_script e)))"
    by blast
  then show ?thesis using mem
    by (auto simp: env_row_def ENV_DEV_def truthy_def)
qed

section \<open>The path guard\<close>



lemma str_join_Cons: "ys \<noteq> [] \<Longrightarrow> str_join sep (x # ys) = x @ sep @ str_join sep ys"
  by (cases ys) auto





lemma abspath_absolute: "abspath cwd (CHR ''/'' # p) = normpath (CHR ''/'' # p)"
  by (simp add: abspath_def isabs_def)








section \<open>Traces and primitive steps\<close>

lemma actions_append [simp]: "actions (xs @ ys) = actions xs @ actions ys"
  by (induction xs rule: actions.induct) auto

lemma ran_append [simp]: "ran (xs @ ys) = ran xs @ ran ys"
  by (induction xs rule: ran.induct) auto

lemma went_well_actions [simp]: "list_all went_well (actions t) = list_all went_well t"
  by (induction t rule: actions.induct) auto

lemma actions_output_box [simp]: "actions (output_box out) = []"
  by (simp add: output_box_def)

lemma ran_output_box [simp]: "ran (output_box out) = []"
  by (simp add: output_box_def)

lemma went_well_output_box [simp]: "list_all went_well (output_box out)"
  by (simp add: output_box_def)

lemma ran_actions [simp]: "ran (actions t) = ran t"
  by (induction t rule: actions.induct) auto


lemma fail_fast_well: "list_all went_well t \<Longrightarrow> fail_fast t"
  unfolding fail_fast_def
  by (metis went_well_actions list_all_iff in_set_butlastD)

lemma well_butlast_actions: "list_all went_well t \<Longrightarrow> list_all went_well (butlast (actions t))"
  using fail_fast_well by (simp add: fail_fast_def)

lemma fail_fast_last:
  assumes ff: "fail_fast t" and dec: "actions t = pre @ e # post" and bad: "\<not> went_well e"
  shows "post = []"
proof (rule ccontr)
  assume "post \<noteq> []"
  then have "butlast (actions t) = pre @ e # butlast post"
    by (simp add: dec butlast_append)
  with ff bad show False by (simp add: fail_fast_def)
qed

lemma print_simps [simp]:
  "world (print x s) = world s" "ticks (print x s) = ticks s"
  "trace (print x s) = trace s @ [Printed x]"
  by (simp_all add: print_def)

lemma banner_eq:
  "banner H title s = (banner_text (strftime_now H (ticks s)) title, s\<lparr>ticks := Suc (ticks s)\<rparr>)"
  by (simp add: banner_def ts_def)

lemma run_cmd_capture_eq:
  "run_cmd_capture H cmd cwd s =
     (case subprocess_run H (world s) cmd cwd of (p, w') \<Rightarrow>
        (case p of
           SpawnError \<Rightarrow>
             (Inl OSError,
              s\<lparr>world := w', trace := trace s @ [Printed (cmd_block cmd cwd), Ran cmd cwd p]\<rparr>)
         | Completed rc so se \<Rightarrow>
             if rc \<noteq> 0
             then (Inl (HTTPException 500
                     (failure_detail (strftime_now H (ticks s)) cmd cwd rc (captured p))),
                   s\<lparr>world := w', ticks := Suc (ticks s),
                     trace := trace s @ [Printed (cmd_block cmd cwd), Ran cmd cwd p]
                                @ output_box (captured p)\<rparr>)
             else (Inr (captured p),
                   s\<lparr>world := w',
                     trace := trace s @ [Printed (cmd_block cmd cwd), Ran cmd cwd p]
                                @ output_box (captured p)\<rparr>)))"
  by (simp add: run_cmd_capture_def Let_def print_def banner_eq failure_detail_def captured_def
        output_box_def split: prod.splits proc_result.splits)


lemma assert_git_repo_eq:
  "assert_git_repo H path s =
     (if \<not> os_isdir H (world s) path
      then (Inl (HTTPException 400 (''Directory not found: '' @ path)),
            s\<lparr>trace := trace s @ [Checked_isdir path False]\<rparr>)
      else if \<not> os_isdir H (world s) (path_join path ''.git'')
      then (Inl (HTTPException 400 (''Not a git repo (.git not found): '' @ path)),
            s\<lparr>trace := trace s @ [Checked_isdir path True,
                                     Checked_isdir (path_join path ''.git'') False]\<rparr>)
      else (Inr (),
            s\<lparr>trace := trace s @ [Checked_isdir path True,
                                     Checked_isdir (path_join path ''.git'') True]\<rparr>))"
  by (simp add: assert_git_repo_def isdir_def Let_def)

lemma assert_file_exists_eq:
  "assert_file_exists H path s =
     (if \<not> os_isfile H (world s) path
      then (Inl (HTTPException 400 (''File not found: '' @ path)),
            s\<lparr>trace := trace s @ [Checked_isfile path False]\<rparr>)
      else (Inr (), s\<lparr>trace := trace s @ [Checked_isfile path True]\<rparr>))"
  by (simp add: assert_file_exists_def isfile_def Let_def)



lemma suffix_append_self [simp]: "suffix ys (xs @ ys)"
  by (simp add: suffix_def)


section \<open>The two stages\<close>


lemmas backend_unfold =
  deploy_backend_def banner_eq assert_git_repo_eq run_cmd_capture_eq Let_def

lemma deploy_frontend_skip:
  "\<not> truthy (front_deploy_script e) \<Longrightarrow>
   deploy_frontend H e wdir br s =
     (Inr (banner_text (strftime_now H (ticks s)) (''FRONTEND DEPLOY | '' @ name e)
           @ ''[Frontend] Skipped (not configured for this environment)'' @ NL),
      s\<lparr>ticks := Suc (ticks s)\<rparr>)"
  by (simp add: deploy_frontend_def banner_eq)

lemma deploy_frontend_runs:
  assumes "truthy (front_deploy_script e)"
    and "os_isdir H (world s) wdir" and "os_isdir H (world s) (path_join wdir ''.git'')"
    and "os_isfile H (world s) (path_join wdir (or_empty (front_deploy_script e)))"
  shows "actions (trace (snd (deploy_frontend H e wdir br s))) =
     actions (trace s) @
     [Checked_isdir wdir True, Checked_isdir (path_join wdir ''.git'') True,
      Checked_isfile (path_join wdir (or_empty (front_deploy_script e))) True,
      Ran [''bash'', path_join wdir (or_empty (front_deploy_script e)), br] wdir
        (fst (subprocess_run H (world s)
               [''bash'', path_join wdir (or_empty (front_deploy_script e)), br] wdir))]"
  using assms
  by (simp add: deploy_frontend_def banner_eq assert_git_repo_eq assert_file_exists_eq
        run_cmd_capture_eq Let_def split: prod.splits proc_result.splits)

lemma deploy_frontend_precondition:
  assumes "truthy (front_deploy_script e)"
  shows "\<not> os_isdir H (world s) wdir \<Longrightarrow>
           deploy_frontend H e wdir br s =
             (Inl (HTTPException 400 (''Directory not found: '' @ wdir)),
              s\<lparr>ticks := Suc (ticks s), trace := trace s @ [Checked_isdir wdir False]\<rparr>)"
    and "os_isdir H (world s) wdir \<Longrightarrow> \<not> os_isdir H (world s) (path_join wdir ''.git'') \<Longrightarrow>
           deploy_frontend H e wdir br s =
             (Inl (HTTPException 400 (''Not a git repo (.git not found): '' @ wdir)),
              s\<lparr>ticks := Suc (ticks s),
                trace := trace s @ [Checked_isdir wdir True,
                                    Checked_isdir (path_join wdir ''.git'') False]\<rparr>)"
    and "os_isdir H (world s) wdir \<Longrightarrow> os_isdir H (world s) (path_join wdir ''.git'') \<Longrightarrow>
         \<not> os_isfile H (world s) (path_join wdir (or_empty (front_deploy_script e))) \<Longrightarrow>
           deploy_frontend H e wdir br s =
             (Inl (HTTPException 400
                    (''File not found: '' @ path_join wdir (or_empty (front_deploy_script e)))),
              s\<lparr>ticks := Suc (ticks s),
                trace := trace s @ [Checked_isdir wdir True,
                                    Checked_isdir (path_join wdir ''.git'') True,
                                    Checked_isfile (path_join wdir (or_empty (front_deploy_script e))) False]\<rparr>)"
  using assms
  by (simp_all add: deploy_frontend_def banner_eq assert_git_repo_eq assert_file_exists_eq Let_def)

lemma deploy_frontend_blocked:
  assumes t: "truthy (front_deploy_script e)"
    and blocked: "\<not> (os_isdir H (world s) wdir \<and> os_isdir H (world s) (path_join wdir ''.git'')
              \<and> os_isfile H (world s) (path_join wdir (or_empty (front_deploy_script e))))"
  shows "(\<exists>d. fst (deploy_frontend H e wdir br s) = Inl (HTTPException 400 d))
       \<and> ran (trace (snd (deploy_frontend H e wdir br s))) = ran (trace s)"
proof (cases "os_isdir H (world s) wdir")
  case False
  from deploy_frontend_precondition(1) [OF t False, of br] show ?thesis by simp
next
  case dir: True
  show ?thesis
  proof (cases "os_isdir H (world s) (path_join wdir ''.git'')")
    case False
    from deploy_frontend_precondition(2) [OF t dir False, of br] show ?thesis by simp
  next
    case True
    with dir blocked have "\<not> os_isfile H (world s) (path_join wdir (or_empty (front_deploy_script e)))"
      by simp
    from deploy_frontend_precondition(3) [OF t dir True this, of br] show ?thesis by simp
  qed
qed

lemma deploy_frontend_fail_fast:
  "list_all went_well (trace s) \<Longrightarrow> fail_fast (trace (snd (deploy_frontend H e wdir br s)))"
  by (simp add: deploy_frontend_def banner_eq assert_git_repo_eq assert_file_exists_eq
        run_cmd_capture_eq Let_def fail_fast_def butlast_append well_butlast_actions
      split: prod.split proc_result.split)

lemma deploy_frontend_Inr_well:
  "list_all went_well (trace s) \<Longrightarrow>
   (\<exists>v. fst (deploy_frontend H e wdir br s) = Inr v)
     = list_all went_well (trace (snd (deploy_frontend H e wdir br s)))"
  by (simp add: deploy_frontend_def banner_eq assert_git_repo_eq assert_file_exists_eq
        run_cmd_capture_eq Let_def exited_zero_def
      split: prod.split proc_result.split)




lemma deploy_backend_fail_fast:
  "list_all went_well (trace s) \<Longrightarrow> fail_fast (trace (snd (deploy_backend H e wdir br s)))"
  by (simp add: backend_unfold fail_fast_def butlast_append well_butlast_actions exited_zero_def
      split: prod.split proc_result.split option.split)


lemma deploy_backend_Inr_imp_well:
  "list_all went_well (trace s) \<Longrightarrow>
   (\<exists>v. fst (deploy_backend H e wdir br s) = Inr v) \<longrightarrow>
   list_all went_well (trace (snd (deploy_backend H e wdir br s)))"
  by (simp add: backend_unfold exited_zero_def
      split: prod.split proc_result.split option.split)





lemma deploy_backend_first_check:
  "prefix (actions (trace s) @ [Checked_isdir wdir (os_isdir H (world s) wdir)])
     (actions (trace (snd (deploy_backend H e wdir br s))))"
  by (simp add: backend_unfold split: prod.split proc_result.split option.split)

lemma deploy_backend_actions_grow:
  "prefix (actions (trace s)) (actions (trace (snd (deploy_backend H e wdir br s))))"
  using deploy_backend_first_check [of s wdir H e br] by (meson append_prefixD)


lemma deploy_backend_precondition:
  "\<not> (os_isdir H (world s) wdir \<and> os_isdir H (world s) (path_join wdir ''.git'')) \<Longrightarrow>
     ran (trace (snd (deploy_backend H e wdir br s))) = ran (trace s)
   \<and> fst (deploy_backend H e wdir br s) =
       Inl (HTTPException 400
         ((if os_isdir H (world s) wdir then ''Not a git repo (.git not found): ''
           else ''Directory not found: '') @ wdir))"
  by (auto simp add: deploy_backend_def banner_eq assert_git_repo_eq)




section \<open>The request handler\<close>

lemma deploy_no_env:
  "ENVS_BY_KEY (env_key req) = None \<Longrightarrow>
   deploy H req s = (Inl (HTTPException 400 ''Invalid env_key (not in allowlist).''), s)"
  by (simp add: deploy_def)

lemma deploy_bad_path:
  assumes "ENVS_BY_KEY (env_key req) = Some e"
    and "\<not> is_under_allowed_roots H (work_front_dir req) \<or> \<not> is_under_allowed_roots H (work_back_dir req)"
  shows "deploy H req s =
     (Inl (HTTPException 400
        (''Path not allowed: ''
         @ (if \<not> is_under_allowed_roots H (work_front_dir req) then work_front_dir req
            else work_back_dir req)
         @ NL @ ''Allowed roots: '' @ ALLOWED_ROOTS_repr)), s)"
  using assms by (auto simp: deploy_def)

lemma deploy_rejected:
  assumes "ENVS_BY_KEY (env_key req) = None
           \<or> \<not> is_under_allowed_roots H (work_front_dir req)
           \<or> \<not> is_under_allowed_roots H (work_back_dir req)"
  shows "\<exists>d. deploy H req s = (Inl (HTTPException 400 d), s)"
proof (cases "ENVS_BY_KEY (env_key req)")
  case None
  then show ?thesis by (simp add: deploy_no_env)
next
  case (Some e)
  with assms have "\<not> is_under_allowed_roots H (work_front_dir req)
      \<or> \<not> is_under_allowed_roots H (work_back_dir req)" by simp
  from deploy_bad_path [OF Some this] show ?thesis by blast
qed

lemma stage_entry_simps [simp]:
  "world (stage_entry H e req s) = world s"
  "ticks (stage_entry H e req s) = Suc (Suc (ticks s))"
  "actions (trace (stage_entry H e req s)) = actions (trace s)"
  "ran (trace (stage_entry H e req s)) = ran (trace s)"
  "list_all went_well (trace (stage_entry H e req s)) = list_all went_well (trace s)"
  by (simp_all add: stage_entry_def)

lemma deploy_eq:
  assumes "ENVS_BY_KEY (env_key req) = Some e"
    and "is_under_allowed_roots H (work_front_dir req)"
    and "is_under_allowed_roots H (work_back_dir req)"
  shows "deploy H req s =
    (case deploy_frontend H e (work_front_dir req) (branch req) (stage_entry H e req s) of
       (Inl x, s3) \<Rightarrow> (Inl x, s3)
     | (Inr flog, s3) \<Rightarrow>
         (case deploy_backend H e (work_back_dir req) (branch req) s3 of
            (Inl x, s4) \<Rightarrow> (Inl x, s4)
          | (Inr blog, s4) \<Rightarrow>
              (Inr [(''ok'', JBool True),
                    (''env'', JStr (name e)),
                    (''output'', JStr
                      (transcript_head H e req s @ flog @ blog
                       @ banner_text (strftime_now H (ticks s4))
                           (''DEPLOY FINISHED '' @ glyph_check @ '' | '' @ name e)))],
               s4\<lparr>ticks := Suc (Suc (ticks s4)),
                  trace := trace s4 @
                    [Printed (banner_text (strftime_now H (Suc (ticks s4)))
                       (''DEPLOY FINISHED '' @ glyph_check @ '' | '' @ name e))]\<rparr>)))"
  using assms
  by (simp add: deploy_def banner_eq Let_def print_def stage_entry_def transcript_head_def
      split: prod.split sum.split)

lemma deploy_cases [consumes 3, case_names front_failed back_failed finished]:
  assumes "ENVS_BY_KEY (env_key req) = Some e"
    and "is_under_allowed_roots H (work_front_dir req)"
    and "is_under_allowed_roots H (work_back_dir req)"
  obtains
    (front_failed) x s3 where
      "deploy_frontend H e (work_front_dir req) (branch req) (stage_entry H e req s) = (Inl x, s3)"
      "deploy H req s = (Inl x, s3)"
  | (back_failed) flog s3 x s4 where
      "deploy_frontend H e (work_front_dir req) (branch req) (stage_entry H e req s) = (Inr flog, s3)"
      "deploy_backend H e (work_back_dir req) (branch req) s3 = (Inl x, s4)"
      "deploy H req s = (Inl x, s4)"
  | (finished) flog s3 blog s4 where
      "deploy_frontend H e (work_front_dir req) (branch req) (stage_entry H e req s) = (Inr flog, s3)"
      "deploy_backend H e (work_back_dir req) (branch req) s3 = (Inr blog, s4)"
      "deploy H req s =
         (Inr [(''ok'', JBool True),
               (''env'', JStr (name e)),
               (''output'', JStr
                 (transcript_head H e req s @ flog @ blog
                  @ banner_text (strftime_now H (ticks s4))
                      (''DEPLOY FINISHED '' @ glyph_check @ '' | '' @ name e)))],
          s4\<lparr>ticks := Suc (Suc (ticks s4)),
             trace := trace s4 @
               [Printed (banner_text (strftime_now H (Suc (ticks s4)))
                  (''DEPLOY FINISHED '' @ glyph_check @ '' | '' @ name e))]\<rparr>)"
proof (cases "deploy_frontend H e (work_front_dir req) (branch req) (stage_entry H e req s)")
  case (Pair rf s3)
  show ?thesis
  proof (cases rf)
    case (Inl x)
    with Pair front_failed show ?thesis
      by (simp add: deploy_eq [OF assms])
  next
    case (Inr flog)
    note fr = Pair [unfolded Inr]
    show ?thesis
    proof (cases "deploy_backend H e (work_back_dir req) (branch req) s3")
      case (Pair rb s4)
      show ?thesis
      proof (cases rb)
        case (Inl x)
        with Pair fr back_failed show ?thesis
          by (simp add: deploy_eq [OF assms])
      next
        case (Inr blog)
        with Pair fr finished show ?thesis
          by (simp add: deploy_eq [OF assms])
      qed
    qed
  qed
qed

lemma deploy_fail_fast:
  assumes well: "list_all went_well (trace s)"
  shows "fail_fast (trace (snd (deploy H req s)))"
proof (cases "ENVS_BY_KEY (env_key req) = None
           \<or> \<not> is_under_allowed_roots H (work_front_dir req)
           \<or> \<not> is_under_allowed_roots H (work_back_dir req)")
  case True
  from deploy_rejected [OF True, of s] well show ?thesis
    by (auto simp: fail_fast_well)
next
  case False
  then obtain e where env: "ENVS_BY_KEY (env_key req) = Some e"
    and af: "is_under_allowed_roots H (work_front_dir req)"
    and ab: "is_under_allowed_roots H (work_back_dir req)" by auto
  let ?s2 = "stage_entry H e req s"
  have w2: "list_all went_well (trace ?s2)" using well by simp
  from env af ab show ?thesis
  proof (cases rule: deploy_cases [where s = s])
    case (front_failed x s3)
    with deploy_frontend_fail_fast [OF w2, of H e "work_front_dir req" "branch req"]
    show ?thesis by simp
  next
    case (back_failed flog s3 x s4)
    with deploy_frontend_Inr_well [OF w2, of H e "work_front_dir req" "branch req"]
    have "list_all went_well (trace s3)" by simp
    from deploy_backend_fail_fast [OF this, of H e "work_back_dir req" "branch req"] back_failed
    show ?thesis by simp
  next
    case (finished flog s3 blog s4)
    with deploy_frontend_Inr_well [OF w2, of H e "work_front_dir req" "branch req"]
    have "list_all went_well (trace s3)" by simp
    from deploy_backend_Inr_imp_well [OF this, of H e "work_back_dir req" "branch req"] finished
    have "list_all went_well (trace s4)" by simp
    with finished show ?thesis by (simp add: fail_fast_well)
  qed
qed




lemma deploy_actions_frontend:
  assumes env: "ENVS_BY_KEY (env_key req) = Some e"
    and af: "is_under_allowed_roots H (work_front_dir req)"
    and ab: "is_under_allowed_roots H (work_back_dir req)"
  shows "prefix (actions (trace (snd (deploy_frontend H e (work_front_dir req) (branch req)
                                         (stage_entry H e req s)))))
           (actions (trace (snd (deploy H req s))))"
  using env af ab
proof (cases rule: deploy_cases [where s = s])
  case (front_failed x s3)
  then show ?thesis by simp
next
  case (back_failed flog s3 x s4)
  with deploy_backend_actions_grow [of s3 H e "work_back_dir req" "branch req"]
  show ?thesis by simp
next
  case (finished flog s3 blog s4)
  with deploy_backend_actions_grow [of s3 H e "work_back_dir req" "branch req"]
  show ?thesis by simp
qed

lemma deploy_skip_backend_first:
  assumes env: "ENVS_BY_KEY (env_key req) = Some e"
    and af: "is_under_allowed_roots H (work_front_dir req)"
    and ab: "is_under_allowed_roots H (work_back_dir req)"
    and skip: "\<not> truthy (front_deploy_script e)"
  shows "prefix (actions (trace s)
                 @ [Checked_isdir (work_back_dir req) (os_isdir H (world s) (work_back_dir req))])
           (actions (trace (snd (deploy H req s))))"
  using env af ab
proof (cases rule: deploy_cases [where s = s])
  case (front_failed x s3)
  with skip show ?thesis by (simp add: deploy_frontend_skip)
next
  case (back_failed flog s3 x s4)
  with skip have s3: "s3 = (stage_entry H e req s)\<lparr>ticks := Suc (ticks (stage_entry H e req s))\<rparr>"
    by (simp add: deploy_frontend_skip)
  from deploy_backend_first_check [of s3 "work_back_dir req" H e "branch req"] back_failed
  show ?thesis by (simp add: s3)
next
  case (finished flog s3 blog s4)
  with skip have s3: "s3 = (stage_entry H e req s)\<lparr>ticks := Suc (ticks (stage_entry H e req s))\<rparr>"
    by (simp add: deploy_frontend_skip)
  from deploy_backend_first_check [of s3 "work_back_dir req" H e "branch req"] finished
  show ?thesis by (simp add: s3)
qed

section \<open>Runs on the scripted host\<close>

lemma scripted_host_fields:
  "getcwd (scripted_host dirs files) = ''/srv/deploy-tool''"
  "os_isdir (scripted_host dirs files) w p = (p \<in> set dirs)"
  "os_isfile (scripted_host dirs files) w p = (p \<in> set files)"
  "subprocess_run (scripted_host dirs files) = scripted_run"
  "shlex_split (scripted_host dirs files) = scripted_split"
  "strftime_now (scripted_host dirs files) n
     = ''2025-01-01 00:00:'' @ str_nat (n div 10) @ str_nat (n mod 10)"
  by (simp_all add: scripted_host_def)

lemma env_dev: "ENVS_BY_KEY ''DEV'' = Some ENV_DEV"
  by (simp add: ENVS_BY_KEY_def dict_by_key_def ENVS_def ENV_DEV_def ENV_TEST_def)

lemma env_test: "ENVS_BY_KEY ''TEST'' = Some ENV_TEST"
  by (simp add: ENVS_BY_KEY_def dict_by_key_def ENVS_def ENV_DEV_def ENV_TEST_def)

lemma env_prod: "ENVS_BY_KEY ''PROD'' = None"
  by (simp add: ENVS_BY_KEY_def dict_by_key_def ENVS_def ENV_DEV_def ENV_TEST_def)

lemma allowed_dirs:
  "is_under_allowed_roots H front_dir" "is_under_allowed_roots H back_dir"
  by (simp_all add: is_under_allowed_roots_def ALLOWED_ROOTS_def abspath_def isabs_def normpath_def
      initial_slashes_of_def norm_comp_def front_dir_def back_dir_def)

lemma not_allowed_etc: "\<not> is_under_allowed_roots H ''/etc''"
  by (simp add: is_under_allowed_roots_def ALLOWED_ROOTS_def abspath_def isabs_def normpath_def
      initial_slashes_of_def norm_comp_def)

lemma path_join_back_git: "path_join back_dir ''.git'' = back_dir @ ''/.git''"
  by (simp add: path_join_def back_dir_def suffix_def)

lemma path_join_front_git: "path_join front_dir ''.git'' = front_dir @ ''/.git''"
  by (simp add: path_join_def front_dir_def suffix_def)

lemma path_join_front_script: "path_join front_dir ''./deploy.sh'' = front_dir @ ''/./deploy.sh''"
  by (simp add: path_join_def front_dir_def suffix_def)

lemma dirs_distinct [simp]:
  "front_dir \<noteq> back_dir" "back_dir \<noteq> front_dir"
  "back_dir \<noteq> front_dir @ ''/.git''" "back_dir @ ''/.git'' \<noteq> front_dir"
  "back_dir @ ''/.git'' \<noteq> front_dir @ ''/.git''"
  by (simp_all add: front_dir_def back_dir_def)

lemma more_dirs_distinct [simp]:
  "front_dir \<noteq> front_dir @ ''/.git''" "back_dir \<noteq> back_dir @ ''/.git''"
  "front_dir @ ''/.git'' \<noteq> back_dir" "front_dir @ ''/.git'' \<noteq> back_dir @ ''/.git''"
  "front_dir \<noteq> back_dir @ ''/.git''"
  by (simp_all add: front_dir_def back_dir_def)

lemmas host_eval =
  demo_host_def bare_host_def no_script_host_def
  scripted_host_fields(2-5) scripted_run_def scripted_split_def start_def
  path_join_back_git path_join_front_git path_join_front_script
  env_dev env_test env_prod allowed_dirs not_allowed_etc
  ENV_DEV_def ENV_TEST_def truthy_def exit_ok_def captured_def or_empty_def exited_zero_def
  eval_nat_numeral

lemmas req_eval = req_dev_def req_test_def req_outside_def req_unknown_def

lemmas deploy_eval =
  deploy_def deploy_frontend_def deploy_backend_def banner_eq assert_git_repo_eq
  assert_file_exists_eq run_cmd_capture_eq Let_def print_def


lemma not_sublist_char: "c \<in> set xs \<Longrightarrow> c \<notin> set ys \<Longrightarrow> \<not> sublist xs ys"
  using set_mono_sublist by fastforce



lemma run_test_ok_actions:
  "actions (trace (snd (deploy demo_host req_test (start test_ok_script)))) =
     [Checked_isdir front_dir True, Checked_isdir (front_dir @ ''/.git'') True,
      Checked_isfile (front_dir @ ''/./deploy.sh'') True,
      Ran [''bash'', front_dir @ ''/./deploy.sh'', ''sprint/23''] front_dir (exit_ok ''built''),
      Checked_isdir back_dir True, Checked_isdir (back_dir @ ''/.git'') True,
      Ran [''git'', ''fetch'', ''origin''] back_dir (exit_ok []),
      Ran [''git'', ''pull'', ''origin'', ''sprint/23''] back_dir (exit_ok ''Already up to date.''),
      Ran [''docker'', ''compose'', ''-p'', ''elyvium-test'', ''--env-file'', ''.env.test'',
           ''up'', ''--build'', ''-d'']
        back_dir (exit_ok ''Started'')]"
  unfolding req_eval test_ok_script_def
  by (simp add: deploy_eval host_eval)



lemma run_bare:
  "fst (deploy bare_host req_test (start [])) =
     Inl (HTTPException 400 (''Directory not found: '' @ front_dir))"
  "actions (trace (snd (deploy bare_host req_test (start [])))) = [Checked_isdir front_dir False]"
  unfolding req_eval
  by (simp_all add: deploy_eval host_eval)

lemma run_no_script:
  "actions (trace (snd (deploy no_script_host req_test (start [])))) =
     [Checked_isdir front_dir True, Checked_isdir (front_dir @ ''/.git'') True,
      Checked_isfile (front_dir @ ''/./deploy.sh'') False]"
  unfolding req_eval
  by (simp add: deploy_eval host_eval)


section \<open>The deploy request: claims\<close>

text \<open>
  C1, amended. A deploy request in which \<open>work_front_dir\<close> or \<open>work_back_dir\<close> does not
  normalize to a path under an allowed root is rejected with status 400, and the state is
  returned as it was: nothing has been printed, tested or run. When the environment key of
  the request is registered, the detail is the path error, naming the first offending path
  and the allowed roots. (An unknown key is reported before any path is looked at.)
\<close>

theorem disallowed_path_rejected:
  assumes "\<not> is_under_allowed_roots H (work_front_dir req)
         \<or> \<not> is_under_allowed_roots H (work_back_dir req)"
  shows "(\<exists>d. deploy H req s = (Inl (HTTPException 400 d), s))
       \<and> (\<forall>e. ENVS_BY_KEY (env_key req) = Some e \<longrightarrow>
             deploy H req s =
               (Inl (HTTPException 400
                  (''Path not allowed: ''
                   @ (if \<not> is_under_allowed_roots H (work_front_dir req) then work_front_dir req
                      else work_back_dir req)
                   @ NL @ ''Allowed roots: '' @ ALLOWED_ROOTS_repr)), s))"
  using assms deploy_rejected [of req H s] deploy_bad_path [of req _ H s] by blast

theorem path_error_claim_counterexample:
  "\<not> is_under_allowed_roots demo_host (work_front_dir req_unknown)
   \<and> deploy demo_host req_unknown (start []) =
       (Inl (HTTPException 400 ''Invalid env_key (not in allowlist).''), start [])
   \<and> \<not> sublist (work_front_dir req_unknown) ''Invalid env_key (not in allowlist).''"
proof -
  have "CHR ''/'' \<in> set (work_front_dir req_unknown)"
    and "CHR ''/'' \<notin> set ''Invalid env_key (not in allowlist).''"
    by (simp_all add: req_unknown_def)
  then have "\<not> sublist (work_front_dir req_unknown) ''Invalid env_key (not in allowlist).''"
    by (rule not_sublist_char)
  then show ?thesis
    by (simp add: req_unknown_def not_allowed_etc deploy_def env_prod)
qed

theorem disallowed_path_rejected_witness:
  "\<not> is_under_allowed_roots demo_host (work_front_dir req_outside)
   \<and> ENVS_BY_KEY (env_key req_outside) = Some ENV_DEV
   \<and> deploy demo_host req_outside (start []) =
       (Inl (HTTPException 400
              (''Path not allowed: /etc'' @ NL @ ''Allowed roots: '' @ ALLOWED_ROOTS_repr)),
        start [])"
proof -
  have bad: "\<not> is_under_allowed_roots demo_host (work_front_dir req_outside)"
    by (simp add: req_outside_def not_allowed_etc)
  have env: "ENVS_BY_KEY (env_key req_outside) = Some ENV_DEV"
    by (simp add: req_outside_def env_dev)
  from bad have "\<not> is_under_allowed_roots demo_host (work_front_dir req_outside)
         \<or> \<not> is_under_allowed_roots demo_host (work_back_dir req_outside)" by simp
  from disallowed_path_rejected [OF this, of "start []"] env bad
  have "deploy demo_host req_outside (start []) =
       (Inl (HTTPException 400
              (''Path not allowed: '' @ work_front_dir req_outside @ NL
               @ ''Allowed roots: '' @ ALLOWED_ROOTS_repr)), start [])"
    by simp
  with bad env show ?thesis by (simp add: req_outside_def)
qed









text \<open>
  C5. For a request to an environment with a frontend script: once the frontend directory
  is a git repository and the script path (the script joined under the frontend directory)
  is a file, the request tests exactly these three and then runs
  \<open>[bash, script_path, branch]\<close> in the frontend directory.
\<close>

theorem frontend_script_invocation:
  assumes env: "ENVS_BY_KEY (env_key req) = Some e"
    and af: "is_under_allowed_roots H (work_front_dir req)"
    and ab: "is_under_allowed_roots H (work_back_dir req)"
    and script: "truthy (front_deploy_script e)"
    and repo: "os_isdir H (world s) (work_front_dir req)"
              "os_isdir H (world s) (path_join (work_front_dir req) ''.git'')"
    and script_file: "os_isfile H (world s) (path_join (work_front_dir req) (or_empty (front_deploy_script e)))"
  shows "prefix
           (actions (trace s) @
            [Checked_isdir (work_front_dir req) True,
             Checked_isdir (path_join (work_front_dir req) ''.git'') True,
             Checked_isfile (path_join (work_front_dir req) (or_empty (front_deploy_script e))) True,
             Ran [''bash'', path_join (work_front_dir req) (or_empty (front_deploy_script e)), branch req]
               (work_front_dir req)
               (fst (subprocess_run H (world s)
                      [''bash'', path_join (work_front_dir req) (or_empty (front_deploy_script e)),
                       branch req]
                      (work_front_dir req)))])
           (actions (trace (snd (deploy H req s))))"
proof -
  have "os_isdir H (world (stage_entry H e req s)) (work_front_dir req)"
    "os_isdir H (world (stage_entry H e req s)) (path_join (work_front_dir req) ''.git'')"
    "os_isfile H (world (stage_entry H e req s))
       (path_join (work_front_dir req) (or_empty (front_deploy_script e)))"
    using repo script_file by simp_all
  from deploy_frontend_runs [OF script this, of "branch req"]
    deploy_actions_frontend [OF env af ab, of s]
  show ?thesis by simp
qed

theorem frontend_script_invocation_witness:
  "ENVS_BY_KEY (env_key req_test) = Some ENV_TEST
   \<and> is_under_allowed_roots demo_host (work_front_dir req_test)
   \<and> is_under_allowed_roots demo_host (work_back_dir req_test)
   \<and> truthy (front_deploy_script ENV_TEST)
   \<and> os_isdir demo_host (world (start test_ok_script)) (work_front_dir req_test)
   \<and> os_isdir demo_host (world (start test_ok_script)) (path_join (work_front_dir req_test) ''.git'')
   \<and> os_isfile demo_host (world (start test_ok_script))
        (path_join (work_front_dir req_test) (or_empty (front_deploy_script ENV_TEST)))
   \<and> prefix
        [Checked_isdir front_dir True,
         Checked_isdir (front_dir @ ''/.git'') True,
         Checked_isfile (front_dir @ ''/./deploy.sh'') True,
         Ran [''bash'', front_dir @ ''/./deploy.sh'', ''sprint/23''] front_dir (exit_ok ''built'')]
        (actions (trace (snd (deploy demo_host req_test (start test_ok_script)))))"
proof -
  have h: "ENVS_BY_KEY (env_key req_test) = Some ENV_TEST"
    "is_under_allowed_roots demo_host (work_front_dir req_test)"
    "is_under_allowed_roots demo_host (work_back_dir req_test)"
    "truthy (front_deploy_script ENV_TEST)"
    "os_isdir demo_host (world (start test_ok_script)) (work_front_dir req_test)"
    "os_isdir demo_host (world (start test_ok_script)) (path_join (work_front_dir req_test) ''.git'')"
    "os_isfile demo_host (world (start test_ok_script))
        (path_join (work_front_dir req_test) (or_empty (front_deploy_script ENV_TEST)))"
    by (simp_all add: req_test_def host_eval test_ok_script_def)
  from frontend_script_invocation [OF h]
  have "prefix
        [Checked_isdir front_dir True,
         Checked_isdir (front_dir @ ''/.git'') True,
         Checked_isfile (front_dir @ ''/./deploy.sh'') True,
         Ran [''bash'', front_dir @ ''/./deploy.sh'', ''sprint/23''] front_dir (exit_ok ''built'')]
        (actions (trace (snd (deploy demo_host req_test (start test_ok_script)))))"
    by (simp add: req_test_def host_eval test_ok_script_def)
  with h show ?thesis by blast
qed

text \<open>
  C6. For an environment without a frontend script, the frontend stage returns its banner
  followed by the skip marker and does nothing but read the clock: no file system test, no
  command. The request goes on to the backend stage: its first action is the test of the
  backend directory.
\<close>

theorem frontend_skipped_without_script:
  assumes "\<not> truthy (front_deploy_script e)"
  shows "deploy_frontend H e wdir br s =
           (Inr (banner_text (strftime_now H (ticks s)) (''FRONTEND DEPLOY | '' @ name e)
                 @ ''[Frontend] Skipped (not configured for this environment)'' @ NL),
            s\<lparr>ticks := Suc (ticks s)\<rparr>)
       \<and> (ENVS_BY_KEY (env_key req) = Some e
           \<and> is_under_allowed_roots H (work_front_dir req)
           \<and> is_under_allowed_roots H (work_back_dir req) \<longrightarrow>
           prefix (actions (trace s)
                   @ [Checked_isdir (work_back_dir req) (os_isdir H (world s) (work_back_dir req))])
             (actions (trace (snd (deploy H req s)))))"
  using assms deploy_frontend_skip [of e H wdir br s] deploy_skip_backend_first [of req e H s]
  by blast

theorem frontend_skipped_without_script_witness:
  "\<not> truthy (front_deploy_script ENV_DEV)
   \<and> deploy_frontend demo_host ENV_DEV front_dir ''sprint/23'' (start dev_ok_script) =
       (Inr (banner_text (strftime_now demo_host 0) ''FRONTEND DEPLOY | DEV''
             @ ''[Frontend] Skipped (not configured for this environment)'' @ NL),
        \<lparr>world = dev_ok_script, ticks = 1, trace = []\<rparr>)
   \<and> ENVS_BY_KEY (env_key req_dev) = Some ENV_DEV
   \<and> is_under_allowed_roots demo_host (work_front_dir req_dev)
   \<and> is_under_allowed_roots demo_host (work_back_dir req_dev)
   \<and> prefix [Checked_isdir back_dir True]
        (actions (trace (snd (deploy demo_host req_dev (start dev_ok_script)))))"
proof -
  have nt: "\<not> truthy (front_deploy_script ENV_DEV)"
    by (simp add: ENV_DEV_def truthy_def)
  have nm: "name ENV_DEV = ''DEV''" by (simp add: ENV_DEV_def)
  have h: "ENVS_BY_KEY (env_key req_dev) = Some ENV_DEV
     \<and> is_under_allowed_roots demo_host (work_front_dir req_dev)
     \<and> is_under_allowed_roots demo_host (work_back_dir req_dev)"
    by (simp add: req_dev_def env_dev allowed_dirs)
  note T = frontend_skipped_without_script [OF nt, of demo_host]
  from T [of front_dir "''sprint/23''" "start dev_ok_script" req_dev]
  have a: "deploy_frontend demo_host ENV_DEV front_dir ''sprint/23'' (start dev_ok_script) =
       (Inr (banner_text (strftime_now demo_host 0) ''FRONTEND DEPLOY | DEV''
             @ ''[Frontend] Skipped (not configured for this environment)'' @ NL),
        \<lparr>world = dev_ok_script, ticks = 1, trace = []\<rparr>)"
    by (simp add: nm start_def)
  from T [of front_dir "''sprint/23''" "start dev_ok_script" req_dev] h
  have "prefix (actions (trace (start dev_ok_script))
                   @ [Checked_isdir (work_back_dir req_dev)
                        (os_isdir demo_host (world (start dev_ok_script)) (work_back_dir req_dev))])
             (actions (trace (snd (deploy demo_host req_dev (start dev_ok_script)))))"
    by blast
  then have b: "prefix [Checked_isdir back_dir True]
        (actions (trace (snd (deploy demo_host req_dev (start dev_ok_script)))))"
    by (simp add: req_dev_def host_eval)
  from nt a h b show ?thesis by blast
qed




text \<open>
  C8. Asserting a git repository fails with "Directory not found" when the directory does
  not exist and with "Not a git repo" when it has no \<open>.git\<close>; asserting a file fails with
  "File not found" when the path is not a regular file. A stage whose precondition fails
  raises that error (status 400) and runs no command; in a deploy request nothing is tested
  or run after a test that failed, so no later stage runs either.
\<close>

theorem preconditions_short_circuit:
  "(\<not> os_isdir H (world s) path \<longrightarrow>
      fst (assert_git_repo H path s) = Inl (HTTPException 400 (''Directory not found: '' @ path)))
   \<and> (os_isdir H (world s) path \<and> \<not> os_isdir H (world s) (path_join path ''.git'') \<longrightarrow>
      fst (assert_git_repo H path s)
        = Inl (HTTPException 400 (''Not a git repo (.git not found): '' @ path)))
   \<and> (\<not> os_isfile H (world s) path \<longrightarrow>
      fst (assert_file_exists H path s) = Inl (HTTPException 400 (''File not found: '' @ path)))
   \<and> (truthy (front_deploy_script e)
        \<and> \<not> (os_isdir H (world s) path \<and> os_isdir H (world s) (path_join path ''.git'')
              \<and> os_isfile H (world s) (path_join path (or_empty (front_deploy_script e)))) \<longrightarrow>
      (\<exists>d. fst (deploy_frontend H e path br s) = Inl (HTTPException 400 d))
      \<and> ran (trace (snd (deploy_frontend H e path br s))) = ran (trace s))
   \<and> (\<not> (os_isdir H (world s) path \<and> os_isdir H (world s) (path_join path ''.git'')) \<longrightarrow>
      (\<exists>d. fst (deploy_backend H e path br s) = Inl (HTTPException 400 d))
      \<and> ran (trace (snd (deploy_backend H e path br s))) = ran (trace s))
   \<and> (trace s = [] \<longrightarrow>
        (\<forall>pre p post.
            actions (trace (snd (deploy H req s))) = pre @ Checked_isdir p False # post
          \<or> actions (trace (snd (deploy H req s))) = pre @ Checked_isfile p False # post
          \<longrightarrow> post = []))"
proof (intro conjI impI allI)
  show "fst (assert_git_repo H path s) = Inl (HTTPException 400 (''Directory not found: '' @ path))"
    if "\<not> os_isdir H (world s) path"
    using that by (simp add: assert_git_repo_eq)
  show "fst (assert_git_repo H path s)
        = Inl (HTTPException 400 (''Not a git repo (.git not found): '' @ path))"
    if "os_isdir H (world s) path \<and> \<not> os_isdir H (world s) (path_join path ''.git'')"
    using that by (simp add: assert_git_repo_eq)
  show "fst (assert_file_exists H path s) = Inl (HTTPException 400 (''File not found: '' @ path))"
    if "\<not> os_isfile H (world s) path"
    using that by (simp add: assert_file_exists_eq)
next
  assume a: "truthy (front_deploy_script e)
        \<and> \<not> (os_isdir H (world s) path \<and> os_isdir H (world s) (path_join path ''.git'')
              \<and> os_isfile H (world s) (path_join path (or_empty (front_deploy_script e))))"
  from deploy_frontend_blocked [of e H s path br] a
  show "\<exists>d. fst (deploy_frontend H e path br s) = Inl (HTTPException 400 d)"
    and "ran (trace (snd (deploy_frontend H e path br s))) = ran (trace s)"
    by blast+
next
  assume a: "\<not> (os_isdir H (world s) path \<and> os_isdir H (world s) (path_join path ''.git''))"
  from deploy_backend_precondition [OF a, of e br]
  show "\<exists>d. fst (deploy_backend H e path br s) = Inl (HTTPException 400 d)"
    and "ran (trace (snd (deploy_backend H e path br s))) = ran (trace s)"
    by auto
next
  fix pre p post
  assume "trace s = []"
    and dec: "actions (trace (snd (deploy H req s))) = pre @ Checked_isdir p False # post
          \<or> actions (trace (snd (deploy H req s))) = pre @ Checked_isfile p False # post"
  then have ff: "fail_fast (trace (snd (deploy H req s)))"
    by (intro deploy_fail_fast) simp
  from dec show "post = []"
  proof
    assume "actions (trace (snd (deploy H req s))) = pre @ Checked_isdir p False # post"
    from fail_fast_last [OF ff this] show ?thesis by simp
  next
    assume "actions (trace (snd (deploy H req s))) = pre @ Checked_isfile p False # post"
    from fail_fast_last [OF ff this] show ?thesis by simp
  qed
qed

theorem preconditions_short_circuit_witness:
  "\<not> os_isdir bare_host (world (start [])) back_dir
   \<and> fst (assert_git_repo bare_host back_dir (start []))
       = Inl (HTTPException 400 (''Directory not found: '' @ back_dir))
   \<and> os_isdir no_script_host (world (start [])) back_dir
   \<and> \<not> os_isdir no_script_host (world (start [])) (path_join back_dir ''.git'')
   \<and> fst (assert_git_repo no_script_host back_dir (start []))
       = Inl (HTTPException 400 (''Not a git repo (.git not found): '' @ back_dir))
   \<and> \<not> os_isfile no_script_host (world (start [])) (front_dir @ ''/./deploy.sh'')
   \<and> fst (assert_file_exists no_script_host (front_dir @ ''/./deploy.sh'') (start []))
       = Inl (HTTPException 400 (''File not found: '' @ front_dir @ ''/./deploy.sh''))
   \<and> truthy (front_deploy_script ENV_TEST)
   \<and> (\<exists>d. fst (deploy_frontend no_script_host ENV_TEST front_dir ''sprint/23'' (start []))
             = Inl (HTTPException 400 d))
   \<and> ran (trace (snd (deploy_frontend no_script_host ENV_TEST front_dir ''sprint/23'' (start [])))) = []
   \<and> (\<exists>d. fst (deploy_backend no_script_host ENV_TEST back_dir ''sprint/23'' (start []))
             = Inl (HTTPException 400 d))
   \<and> ran (trace (snd (deploy_backend no_script_host ENV_TEST back_dir ''sprint/23'' (start [])))) = []
   \<and> trace (start ([] :: proc_result list)) = []
   \<and> actions (trace (snd (deploy bare_host req_test (start []))))
       = [] @ Checked_isdir front_dir False # []
   \<and> actions (trace (snd (deploy no_script_host req_test (start []))))
       = [Checked_isdir front_dir True, Checked_isdir (front_dir @ ''/.git'') True]
         @ Checked_isfile (front_dir @ ''/./deploy.sh'') False # []"
proof -
  have h1: "\<not> os_isdir bare_host (world (start [])) back_dir"
    by (simp add: host_eval)
  have h2: "os_isdir no_script_host (world (start [])) back_dir
     \<and> \<not> os_isdir no_script_host (world (start [])) (path_join back_dir ''.git'')"
    by (simp add: host_eval)
  have h3: "\<not> os_isfile no_script_host (world (start [])) (front_dir @ ''/./deploy.sh'')"
    by (simp add: host_eval)
  have h4: "truthy (front_deploy_script ENV_TEST)
        \<and> \<not> (os_isdir no_script_host (world (start [])) front_dir
              \<and> os_isdir no_script_host (world (start [])) (path_join front_dir ''.git'')
              \<and> os_isfile no_script_host (world (start []))
                   (path_join front_dir (or_empty (front_deploy_script ENV_TEST))))"
    by (simp add: host_eval)
  have h5: "\<not> (os_isdir no_script_host (world (start [])) back_dir
              \<and> os_isdir no_script_host (world (start [])) (path_join back_dir ''.git''))"
    by (simp add: host_eval)
  have fresh: "trace (start ([] :: proc_result list)) = []" by (simp add: start_def)
  have d1: "actions (trace (snd (deploy bare_host req_test (start []))))
       = [] @ Checked_isdir front_dir False # []"
    by (simp add: run_bare(2))
  have d2: "actions (trace (snd (deploy no_script_host req_test (start []))))
       = [Checked_isdir front_dir True, Checked_isdir (front_dir @ ''/.git'') True]
         @ Checked_isfile (front_dir @ ''/./deploy.sh'') False # []"
    by (simp add: run_no_script)
  note A = preconditions_short_circuit [where H = bare_host and s = "start []" and path = back_dir
      and req = req_test]
  note B = preconditions_short_circuit [where H = no_script_host and s = "start []" and path = back_dir
      and e = ENV_TEST and br = "''sprint/23''" and req = req_test]
  note C = preconditions_short_circuit [where H = no_script_host and s = "start []"
      and path = "front_dir @ ''/./deploy.sh''"]
  note D = preconditions_short_circuit [where H = no_script_host and s = "start []" and path = front_dir
      and e = ENV_TEST and br = "''sprint/23''"]
  from A h1 have a: "fst (assert_git_repo bare_host back_dir (start []))
       = Inl (HTTPException 400 (''Directory not found: '' @ back_dir))" by blast
  from B h2 have b: "fst (assert_git_repo no_script_host back_dir (start []))
       = Inl (HTTPException 400 (''Not a git repo (.git not found): '' @ back_dir))" by blast
  from C h3 have c: "fst (assert_file_exists no_script_host (front_dir @ ''/./deploy.sh'') (start []))
       = Inl (HTTPException 400 (''File not found: '' @ front_dir @ ''/./deploy.sh''))"
    by simp
  from D h4 have d: "(\<exists>d. fst (deploy_frontend no_script_host ENV_TEST front_dir ''sprint/23'' (start []))
             = Inl (HTTPException 400 d))
     \<and> ran (trace (snd (deploy_frontend no_script_host ENV_TEST front_dir ''sprint/23'' (start [])))) = []"
    by (simp add: start_def)
  from B h5 have e: "(\<exists>d. fst (deploy_backend no_script_host ENV_TEST back_dir ''sprint/23'' (start []))
             = Inl (HTTPException 400 d))
     \<and> ran (trace (snd (deploy_backend no_script_host ENV_TEST back_dir ''sprint/23'' (start [])))) = []"
    by (simp add: start_def)
  from A fresh d1 have "([] :: event list) = []" by blast
  from B fresh d2 have "([] :: event list) = []" by blast
  from h1 a h2 b h3 c h4 d e fresh d1 d2 show ?thesis by blast
qed

end
